theory Spec2Isabelle
  imports Main
begin

section \<open>Library functions the handlers call\<close>

text \<open>
  The two handlers of the repository (\<open>Handler\<close> of package \<open>mutualfunds\<close> and \<open>Cron\<close> of
  package \<open>handler\<close>) use the Go standard library for integer parsing, dates, JSON and HTTP.
  This section models, as executable HOL functions, the part of that library the handlers
  rely on, following the documented behaviour of Go. Strings are byte lists.
\<close>

subsection \<open>Decimal digits\<close>

definition isDigit :: "char \<Rightarrow> bool" where
  "isDigit c = (48 \<le> (of_char c :: nat) \<and> (of_char c :: nat) \<le> 57)"

definition digitVal :: "char \<Rightarrow> nat" where
  "digitVal c = of_char c - 48"

definition digitChar :: "nat \<Rightarrow> char" where
  "digitChar n = char_of (48 + n)"

text \<open>The value of a string of decimal digits appended to the value read so far, \<open>None\<close> at
  the first other byte.\<close>

fun digitsValue :: "int \<Rightarrow> string \<Rightarrow> int option" where
  "digitsValue n [] = Some n"
| "digitsValue n (c # cs) =
     (if isDigit c then digitsValue (n * 10 + int (digitVal c)) cs else None)"

text \<open>The decimal digits of a natural number, most significant first.\<close>

fun decimal :: "nat \<Rightarrow> string" where
  "decimal n = (if n < 10 then [digitChar n] else decimal (n div 10) @ [digitChar (n mod 10)])"

declare decimal.simps [simp del]

subsection \<open>strconv.Atoi\<close>

text \<open>
  \<open>strconv.Atoi(s)\<close> is \<open>ParseInt(s, 10, 0)\<close>: an optional sign \<open>+\<close> or \<open>-\<close>, then at
  least one decimal digit and nothing else, and the value must fit the type \<open>int\<close>,
  whose size is that of the platform (64 bits on the deployment target).
\<close>

definition intSize :: nat where
  "intSize = 64"

definition Atoi :: "string \<Rightarrow> int option" where
  "Atoi s =
     (case s of
        [] \<Rightarrow> None
      | c # cs \<Rightarrow>
          (let neg = (c = CHR ''-'');
               ds = (if c = CHR ''-'' \<or> c = CHR ''+'' then cs else s)
           in if ds = [] then None
              else (case digitsValue 0 ds of
                      None \<Rightarrow> None
                    | Some n \<Rightarrow>
                        if neg then (if 2 ^ (intSize - 1) < n then None else Some (- n))
                        else (if 2 ^ (intSize - 1) \<le> n then None else Some n))))"

subsection \<open>time.Time\<close>

text \<open>
  A \<open>time.Time\<close> is an instant. It is modelled by its civil reading in UTC: year, month,
  day and the nanoseconds elapsed since midnight. On such readings the order of instants
  is the lexicographic order of the four fields. The zero value \<open>time.Time{}\<close> is
  January 1, year 1, 00:00:00 UTC, and \<open>IsZero\<close> recognises exactly that instant.
\<close>

record Time =
  year :: int
  month :: int
  day :: int
  nanos :: nat

definition zeroTime :: Time where
  "zeroTime = \<lparr>year = 1, month = 1, day = 1, nanos = 0\<rparr>"

definition IsZero :: "Time \<Rightarrow> bool" where
  "IsZero t = (year t = 1 \<and> month t = 1 \<and> day t = 1 \<and> nanos t = 0)"

definition After :: "Time \<Rightarrow> Time \<Rightarrow> bool" where
  "After t u =
     (year u < year t \<or> (year t = year u \<and>
       (month u < month t \<or> (month t = month u \<and>
         (day u < day t \<or> (day t = day u \<and> nanos u < nanos t))))))"

definition Before :: "Time \<Rightarrow> Time \<Rightarrow> bool" where
  "Before t u = After u t"

definition Equal :: "Time \<Rightarrow> Time \<Rightarrow> bool" where
  "Equal t u = (year t = year u \<and> month t = month u \<and> day t = day u \<and> nanos t = nanos u)"

subsection \<open>time.Parse and Time.Format with the layout 02-01-2006\<close>

definition isLeap :: "int \<Rightarrow> bool" where
  "isLeap y = (y mod 4 = 0 \<and> (y mod 100 \<noteq> 0 \<or> y mod 400 = 0))"

definition daysIn :: "nat \<Rightarrow> int \<Rightarrow> nat" where
  "daysIn m y =
     (if m = 2 then (if isLeap y then 29 else 28)
      else if m = 4 \<or> m = 6 \<or> m = 9 \<or> m = 11 then 30 else 31)"

text \<open>\<open>getnum(s, true)\<close>: exactly two leading digits are read as a number.\<close>

definition getnum :: "string \<Rightarrow> (nat \<times> string) option" where
  "getnum s =
     (case s of
        a # b # rest \<Rightarrow>
          if isDigit a \<and> isDigit b then Some (digitVal a * 10 + digitVal b, rest) else None
      | _ \<Rightarrow> None)"

text \<open>\<open>skip(value, "-")\<close>: the literal separator of the layout.\<close>

definition skipDash :: "string \<Rightarrow> string option" where
  "skipDash s = (case s of c # rest \<Rightarrow> if c = CHR ''-'' then Some rest else None | [] \<Rightarrow> None)"

text \<open>The element \<open>2006\<close>: the next four bytes, all digits, are the year.\<close>

definition getyear :: "string \<Rightarrow> (int \<times> string) option" where
  "getyear s =
     (if length s < 4 then None
      else (case digitsValue 0 (take 4 s) of
              None \<Rightarrow> None
            | Some y \<Rightarrow> Some (y, drop 4 s)))"

text \<open>
  \<open>time.Parse("02-01-2006", value)\<close>: day, separator, month (checked to be 1 to 12),
  separator, year, no text left over, and the day checked against the length of the
  month. The result is midnight UTC of that day; any failure is an error (\<open>None\<close>).
\<close>

definition timeParse :: "string \<Rightarrow> Time option" where
  "timeParse s0 =
     (case getnum s0 of None \<Rightarrow> None | Some (d, s1) \<Rightarrow>
      case skipDash s1 of None \<Rightarrow> None | Some s2 \<Rightarrow>
      case getnum s2 of None \<Rightarrow> None | Some (m, s3) \<Rightarrow>
      if m \<le> 0 \<or> 12 < m then None else
      case skipDash s3 of None \<Rightarrow> None | Some s4 \<Rightarrow>
      case getyear s4 of None \<Rightarrow> None | Some (y, s5) \<Rightarrow>
      if s5 \<noteq> [] then None
      else if d < 1 \<or> daysIn m y < d then None
      else Some \<lparr>year = y, month = int m, day = int d, nanos = 0\<rparr>)"

text \<open>\<open>appendInt(b, x, width)\<close>: the decimal form of \<open>x\<close>, zero-padded to the width.\<close>

definition appendInt :: "int \<Rightarrow> nat \<Rightarrow> string" where
  "appendInt x width =
     (let ds = decimal (nat \<bar>x\<bar>)
      in (if x < 0 then ''-'' else []) @ replicate (width - length ds) (CHR ''0'') @ ds)"

definition timeFormat :: "Time \<Rightarrow> string" where
  "timeFormat t = appendInt (day t) 2 @ ''-'' @ appendInt (month t) 2 @ ''-'' @ appendInt (year t) 4"

subsection \<open>JSON values, requests and responses\<close>

text \<open>
  A JSON document is modelled by its syntax tree; the members of an object are kept in
  the order in which encoding/json writes them (struct fields in declaration order).
\<close>

datatype json =
    JNull
  | JString string
  | JNumber int
  | JArray "json list"
  | JObject "(string \<times> json) list"

text \<open>
  Of an inbound request the handlers read the decoded query pairs and the headers. Both
  \<open>url.Values.Get\<close> and \<open>http.Header.Get\<close> return the first value stored under the key,
  and the empty string when there is none.
\<close>

record request =
  http_method :: string
  header :: "(string \<times> string) list"
  query :: "(string \<times> string) list"

definition firstValue :: "(string \<times> string) list \<Rightarrow> string \<Rightarrow> string" where
  "firstValue kvs k = (case map_of kvs k of None \<Rightarrow> [] | Some v \<Rightarrow> v)"

definition Query_Get :: "request \<Rightarrow> string \<Rightarrow> string" where
  "Query_Get r k = firstValue (query r) k"

definition Header_Get :: "request \<Rightarrow> string \<Rightarrow> string" where
  "Header_Get r k = firstValue (header r) k"

text \<open>\<open>os.Getenv\<close> yields the empty string for a variable that is not set.\<close>

definition Getenv :: "(string \<rightharpoonup> string) \<Rightarrow> string \<Rightarrow> string" where
  "Getenv env k = (case env k of None \<Rightarrow> [] | Some v \<Rightarrow> v)"

text \<open>
  What a handler leaves in its \<open>http.ResponseWriter\<close>: the status code, the headers it
  set, and the body, which is either the message given to \<open>http.Error\<close> or the JSON value
  given to the encoder (on the wire the library ends either with a line feed).
\<close>

datatype body = PlainText string | JSONBody json

record http_response =
  status :: nat
  headers :: "(string \<times> string) list"
  body :: body

definition StatusOK :: nat where "StatusOK = 200"
definition StatusBadRequest :: nat where "StatusBadRequest = 400"
definition StatusUnauthorized :: nat where "StatusUnauthorized = 401"
definition StatusInternalServerError :: nat where "StatusInternalServerError = 500"

definition http_Error :: "string \<Rightarrow> nat \<Rightarrow> http_response" where
  "http_Error msg code =
     \<lparr>status = code,
      headers = [(''Content-Type'', ''text/plain; charset=utf-8''),
                 (''X-Content-Type-Options'', ''nosniff'')],
      body = PlainText msg\<rparr>"

section \<open>The data endpoint (package mutualfunds)\<close>

subsection \<open>Data model\<close>

text \<open>
  The anonymous struct \<open>Meta\<close> shared by \<open>Fund\<close> and \<open>Response\<close>, the anonymous element type
  of \<open>Fund.Data\<close>, and the named types \<open>DataPoint\<close> and \<open>Response\<close>. A Go slice that may be
  \<open>nil\<close> is an optional list (\<open>None\<close> is \<open>nil\<close>): encoding/json writes \<open>null\<close> for a nil
  slice and an array otherwise.
\<close>

record Meta =
  FundHouse :: string
  SchemeType :: string
  SchemeCategory :: string
  SchemeCode :: int
  SchemeName :: string

record FundItem =
  item_Date :: string
  item_Nav :: string

record Fund =
  fund_Meta :: Meta
  fund_Data :: "FundItem list"

record DataPoint =
  Date :: string
  Nav :: string

record Response =
  resp_Meta :: Meta
  Period :: string
  resp_Data :: "DataPoint list option"

definition zeroMeta :: Meta where
  "zeroMeta = \<lparr>FundHouse = [], SchemeType = [], SchemeCategory = [], SchemeCode = 0,
               SchemeName = []\<rparr>"

definition baseURL :: string where
  "baseURL = ''https://api.mfapi.in/mf/''"

text \<open>\<open>append(s, x)\<close> on a slice that may be nil.\<close>

definition append_slice :: "'a list option \<Rightarrow> 'a \<Rightarrow> 'a list option" where
  "append_slice s x = (case s of None \<Rightarrow> Some [x] | Some xs \<Rightarrow> Some (xs @ [x]))"

subsection \<open>The upstream service and the clock\<close>

text \<open>
  The outcome of \<open>http.Get(url)\<close> followed by decoding the body into a \<open>Fund\<close>: the
  transport fails, the decoder fails, or a \<open>Fund\<close> is decoded. The upstream service is a
  function from the URL requested to that outcome, and the clock is the value that
  \<open>time.Now()\<close> returns; both are parameters of the handler.
\<close>

datatype upstream = TransportError string | DecodeError string | Decoded Fund

subsection \<open>Helpers of the handler\<close>

definition isValidInteger :: "string \<Rightarrow> bool" where
  "isValidInteger v = (Atoi v \<noteq> None)"

text \<open>
  \<open>fetchFundData\<close> returns the fund or the wrapped error, and, as its effect, the list
  of URLs it requested.
\<close>

definition fetchFundData :: "(string \<Rightarrow> upstream) \<Rightarrow> string \<Rightarrow> (string + Fund) \<times> string list" where
  "fetchFundData world mutualFundID =
     (let url = baseURL @ mutualFundID
      in (case world url of
            TransportError e \<Rightarrow> (Inl (''error fetching data from API: '' @ e), [url])
          | DecodeError e \<Rightarrow> (Inl (''error decoding API response: '' @ e), [url])
          | Decoded fund \<Rightarrow> (Inr fund, [url])))"

definition parseDates :: "string \<Rightarrow> string \<Rightarrow> string + (Time \<times> Time)" where
  "parseDates startDate endDate =
     (case timeParse startDate of
        None \<Rightarrow> Inl ''invalid start date format. use dd-mm-yyyy''
      | Some start \<Rightarrow>
          (case timeParse endDate of
             None \<Rightarrow> Inl ''invalid end date format. use dd-mm-yyyy''
           | Some end' \<Rightarrow> Inr (start, end')))"

definition validateAndParseDates :: "Time \<Rightarrow> string \<Rightarrow> string \<Rightarrow> string + (Time \<times> Time)" where
  "validateAndParseDates now startDate endDate =
     (if startDate \<noteq> [] \<and> endDate \<noteq> [] then
        (case parseDates startDate endDate of
           Inl err \<Rightarrow> Inl err
         | Inr (start, end') \<Rightarrow>
             if After end' now then Inl ''end date cannot be in the future''
             else if After start end' then Inl ''start date cannot be after end date''
             else Inr (start, end'))
      else if startDate = [] \<and> endDate = [] then Inr (zeroTime, zeroTime)
      else Inl ''both start and end dates are required in the format dd-mm-yyyy'')"

text \<open>The loop of \<open>filterData\<close>; the first argument is the slice built so far.\<close>

fun filterData_loop :: "DataPoint list option \<Rightarrow> FundItem list \<Rightarrow> Time \<Rightarrow> Time \<Rightarrow> DataPoint list option" where
  "filterData_loop filteredData [] start end' = filteredData"
| "filterData_loop filteredData (item # rest) start end' =
     (case timeParse (item_Date item) of
        None \<Rightarrow> filterData_loop filteredData rest start end'
      | Some date \<Rightarrow>
          if (IsZero start \<and> IsZero end') \<or>
             ((Equal date start \<or> After date start) \<and> (Equal date end' \<or> Before date end'))
          then filterData_loop
                 (append_slice filteredData \<lparr>Date = item_Date item, Nav = item_Nav item\<rparr>)
                 rest start end'
          else filterData_loop filteredData rest start end')"

definition filterData :: "FundItem list \<Rightarrow> Time \<Rightarrow> Time \<Rightarrow> DataPoint list option" where
  "filterData data start end' = filterData_loop None data start end'"

definition createSuccessResponse :: "Meta \<Rightarrow> DataPoint list option \<Rightarrow> Time \<Rightarrow> Time \<Rightarrow> Response" where
  "createSuccessResponse meta data start end' =
     (let response = \<lparr>resp_Meta = meta, Period = [], resp_Data = data\<rparr>
      in if \<not> IsZero start \<and> \<not> IsZero end'
         then response\<lparr>Period := timeFormat start @ '' to '' @ timeFormat end'\<rparr>
         else response)"

definition createErrorResponse :: "nat \<Rightarrow> string \<Rightarrow> http_response" where
  "createErrorResponse statusCode message =
     \<lparr>status = statusCode,
      headers = [(''Content-Type'', ''application/json'')],
      body = JSONBody (JObject [(''error'', JString message)])\<rparr>"

subsection \<open>json.Marshal of a Response\<close>

text \<open>
  The members follow the struct tags: \<open>meta\<close>, then \<open>period\<close>, which \<open>omitempty\<close> leaves
  out when the string is empty, then \<open>data\<close>. Marshalling strings and integers cannot
  fail, so the result of \<open>json.Marshal\<close> is always \<open>Inr\<close>.
\<close>

definition json_Meta :: "Meta \<Rightarrow> json" where
  "json_Meta m =
     JObject [(''fund_house'', JString (FundHouse m)),
              (''scheme_type'', JString (SchemeType m)),
              (''scheme_category'', JString (SchemeCategory m)),
              (''scheme_code'', JNumber (SchemeCode m)),
              (''scheme_name'', JString (SchemeName m))]"

definition json_DataPoint :: "DataPoint \<Rightarrow> json" where
  "json_DataPoint p = JObject [(''date'', JString (Date p)), (''nav'', JString (Nav p))]"

definition json_Data :: "DataPoint list option \<Rightarrow> json" where
  "json_Data d = (case d of None \<Rightarrow> JNull | Some ps \<Rightarrow> JArray (map json_DataPoint ps))"

definition json_Response :: "Response \<Rightarrow> json" where
  "json_Response r =
     JObject ([(''meta'', json_Meta (resp_Meta r))] @
              (if Period r = [] then [] else [(''period'', JString (Period r))]) @
              [(''data'', json_Data (resp_Data r))])"

definition json_Marshal :: "Response \<Rightarrow> string + json" where
  "json_Marshal r = Inr (json_Response r)"

subsection \<open>Handler\<close>

text \<open>
  The handler maps the upstream service, the clock and the request to the response it
  writes and the list of outbound requests it made.
\<close>

definition Handler :: "(string \<Rightarrow> upstream) \<Rightarrow> Time \<Rightarrow> request \<Rightarrow> http_response \<times> string list" where
  "Handler world now r =
     (let mutualFundID = Query_Get r ''mutualFundID'';
          startDate = Query_Get r ''start'';
          endDate = Query_Get r ''end''
      in if mutualFundID = [] then
           (createErrorResponse StatusBadRequest ''mutualFundID query parameter is required'', [])
         else if \<not> isValidInteger mutualFundID then
           (createErrorResponse StatusBadRequest ''mutualFundID must be an integer'', [])
         else
           (case validateAndParseDates now startDate endDate of
              Inl err \<Rightarrow> (createErrorResponse StatusBadRequest err, [])
            | Inr (start, end') \<Rightarrow>
                (case fetchFundData world mutualFundID of
                   (Inl err, calls) \<Rightarrow> (createErrorResponse StatusInternalServerError err, calls)
                 | (Inr fund, calls) \<Rightarrow>
                     if fund_Meta fund = zeroMeta then
                       (createErrorResponse StatusBadRequest ''Invalid mutualFundID'', calls)
                     else
                       (let filteredData = filterData (fund_Data fund) start end';
                            response = createSuccessResponse (fund_Meta fund) filteredData start end'
                        in (case json_Marshal response of
                              Inl err \<Rightarrow>
                                (createErrorResponse StatusInternalServerError
                                   ''error creating JSON response'', calls)
                            | Inr jsonResponse \<Rightarrow>
                                (\<lparr>status = StatusOK,
                                  headers = [(''Content-Type'', ''application/json'')],
                                  body = JSONBody jsonResponse\<rparr>, calls))))))"

section \<open>The cron endpoint (package handler)\<close>

definition Cron :: "(string \<rightharpoonup> string) \<Rightarrow> request \<Rightarrow> http_response" where
  "Cron env r =
     (let authHeader = Header_Get r ''Authorization'';
          cronSecret = Getenv env ''CRON_SECRET''
      in if authHeader \<noteq> ''Bearer '' @ cronSecret then
           http_Error ''Unauthorized'' StatusUnauthorized
         else
           \<lparr>status = StatusOK,
            headers = [(''Content-Type'', ''application/json'')],
            body = JSONBody (JObject [(''data'', JString ''Hello, Cron!'')])\<rparr>)"

section \<open>Notions used to state the properties\<close>

text \<open>The conversion \<open>DataPoint{Date: item.Date, Nav: item.Nav}\<close> done in the loop.\<close>

definition toDataPoint :: "FundItem \<Rightarrow> DataPoint" where
  "toDataPoint item = \<lparr>Date = item_Date item, Nav = item_Nav item\<rparr>"

text \<open>The test the loop of \<open>filterData\<close> applies to one element, as a predicate.\<close>

definition keeps :: "Time \<Rightarrow> Time \<Rightarrow> FundItem \<Rightarrow> bool" where
  "keeps start end' item =
     (case timeParse (item_Date item) of
        None \<Rightarrow> False
      | Some date \<Rightarrow>
          (IsZero start \<and> IsZero end') \<or>
          ((Equal date start \<or> After date start) \<and> (Equal date end' \<or> Before date end')))"

text \<open>A slice that was only ever appended to: nil as long as nothing was appended.\<close>

definition slice_of :: "'a list \<Rightarrow> 'a list option" where
  "slice_of xs = (if xs = [] then None else Some xs)"

text \<open>The member stored under a key in the JSON object a response carries, if any.\<close>

definition json_member :: "json \<Rightarrow> string \<Rightarrow> json option" where
  "json_member j k = (case j of JObject kvs \<Rightarrow> map_of kvs k | _ \<Rightarrow> None)"

definition body_member :: "http_response \<Rightarrow> string \<Rightarrow> json option" where
  "body_member resp k = (case body resp of JSONBody j \<Rightarrow> json_member j k | PlainText _ \<Rightarrow> None)"

subsection \<open>Concrete inputs\<close>

text \<open>
  A clock reading (15 June 2024, noon UTC), an upstream fund with three NAV points, the
  second of which carries a date that is not in the format dd-mm-yyyy, an upstream
  service that answers every request with that fund, and requests built from their query
  pairs or their Authorization header.
\<close>

definition example_now :: Time where
  "example_now = \<lparr>year = 2024, month = 6, day = 15, nanos = 43200000000000\<rparr>"

definition example_meta :: Meta where
  "example_meta = \<lparr>FundHouse = ''Example Mutual Fund'', SchemeType = ''Open Ended Schemes'',
                    SchemeCategory = ''Equity Scheme'', SchemeCode = 100027,
                    SchemeName = ''Example Growth''\<rparr>"

definition example_fund :: Fund where
  "example_fund =
     \<lparr>fund_Meta = example_meta,
      fund_Data = [\<lparr>item_Date = ''15-02-2023'', item_Nav = ''11.50000''\<rparr>,
                   \<lparr>item_Date = ''2023-01-20'', item_Nav = ''11.00000''\<rparr>,
                   \<lparr>item_Date = ''15-01-2023'', item_Nav = ''10.50000''\<rparr>]\<rparr>"

definition example_world :: "string \<Rightarrow> upstream" where
  "example_world url = Decoded example_fund"

definition example_request :: "(string \<times> string) list \<Rightarrow> request" where
  "example_request q = \<lparr>http_method = ''GET'', header = [], query = q\<rparr>"

definition example_env :: "string \<rightharpoonup> string" where
  "example_env = [''CRON_SECRET'' \<mapsto> ''s3cret'']"

definition example_cron_request :: "string \<Rightarrow> string \<Rightarrow> request" where
  "example_cron_request m auth = \<lparr>http_method = m, header = [(''Authorization'', auth)], query = []\<rparr>"

text \<open>
  An upstream service that answers with empty metadata, as the real service does for an
  unknown fund.
\<close>

definition example_unknown_fund :: Fund where
  "example_unknown_fund = \<lparr>fund_Meta = zeroMeta, fund_Data = []\<rparr>"

definition example_unknown_world :: "string \<Rightarrow> upstream" where
  "example_unknown_world url = Decoded example_unknown_fund"

section \<open>Auxiliary facts\<close>

subsection \<open>Evaluation of the library functions\<close>

lemma digitChar_table:
  "digitChar 0 = CHR ''0''" "digitChar 1 = CHR ''1''" "digitChar 2 = CHR ''2''"
  "digitChar 3 = CHR ''3''" "digitChar 4 = CHR ''4''" "digitChar 5 = CHR ''5''"
  "digitChar 6 = CHR ''6''" "digitChar 7 = CHR ''7''" "digitChar 8 = CHR ''8''"
  "digitChar 9 = CHR ''9''" "digitChar (Suc 0) = CHR ''1''"
  by code_simp+

lemmas parse_defs = timeParse_def getnum_def skipDash_def getyear_def isDigit_def digitVal_def
  daysIn_def isLeap_def

lemmas atoi_defs = isValidInteger_def Atoi_def isDigit_def digitVal_def intSize_def

lemmas query_defs = Query_Get_def firstValue_def example_request_def

lemmas time_defs = zeroTime_def IsZero_def After_def Before_def Equal_def example_now_def

lemmas status_defs = StatusOK_def StatusBadRequest_def StatusInternalServerError_def

lemmas json_defs = json_Marshal_def json_Response_def json_Meta_def json_Data_def
  json_DataPoint_def body_member_def json_member_def

lemmas world_defs = fetchFundData_def baseURL_def example_world_def example_fund_def
  example_meta_def zeroMeta_def

lemmas format_defs = timeFormat_def appendInt_def decimal.simps digitChar_table

lemmas filter_defs = filterData_def append_slice_def createSuccessResponse_def

lemma timeParse_Nil: "timeParse [] = None"
  by (simp add: timeParse_def getnum_def)

lemma timeParse_examples:
  "timeParse ''01-01-0001'' = Some zeroTime"
  "timeParse ''01-01-2023'' = Some \<lparr>year = 2023, month = 1, day = 1, nanos = 0\<rparr>"
  "timeParse ''31-01-2023'' = Some \<lparr>year = 2023, month = 1, day = 31, nanos = 0\<rparr>"
  "timeParse ''15-01-2023'' = Some \<lparr>year = 2023, month = 1, day = 15, nanos = 0\<rparr>"
  "timeParse ''15-02-2023'' = Some \<lparr>year = 2023, month = 2, day = 15, nanos = 0\<rparr>"
  "timeParse ''01-01-2020'' = Some \<lparr>year = 2020, month = 1, day = 1, nanos = 0\<rparr>"
  "timeParse ''02-01-2020'' = Some \<lparr>year = 2020, month = 1, day = 2, nanos = 0\<rparr>"
  "timeParse ''01-01-2030'' = Some \<lparr>year = 2030, month = 1, day = 1, nanos = 0\<rparr>"
  "timeParse ''2023-01-20'' = None"
  "timeParse ''2023-01-01'' = None"
  "timeParse ''31-02-2023'' = None"
  by (simp_all add: parse_defs zeroTime_def)

lemma isValidInteger_examples:
  "isValidInteger ''100027''" "\<not> isValidInteger ''12a''" "\<not> isValidInteger []"
  by (simp_all add: atoi_defs)

subsection \<open>The loop of filterData as a filter\<close>

text \<open>
  The loop appends the converted elements that pass its test, in their order, and leaves
  the slice nil when none passes.
\<close>

lemma filterData_loop_filter:
  "filterData_loop acc data s e =
     (if filter (keeps s e) data = [] then acc
      else Some ((case acc of None \<Rightarrow> [] | Some xs \<Rightarrow> xs) @ map toDataPoint (filter (keeps s e) data)))"
proof (induction data arbitrary: acc)
  case Nil
  show ?case by simp
next
  case (Cons item rest)
  show ?case
  proof (cases "keeps s e item")
    case True
    then obtain date where d: "timeParse (item_Date item) = Some date"
      by (auto simp: keeps_def split: option.splits)
    with True have c: "(IsZero s \<and> IsZero e) \<or>
        ((Equal date s \<or> After date s) \<and> (Equal date e \<or> Before date e))"
      by (simp add: keeps_def)
    have "filterData_loop acc (item # rest) s e =
            filterData_loop (append_slice acc \<lparr>Date = item_Date item, Nav = item_Nav item\<rparr>) rest s e"
      using d c by simp
    then show ?thesis
      using True by (simp add: Cons.IH append_slice_def toDataPoint_def split: option.splits)
  next
    case False
    then have "filterData_loop acc (item # rest) s e = filterData_loop acc rest s e"
      by (auto simp: keeps_def split: option.splits)
    then show ?thesis
      using False by (simp add: Cons.IH)
  qed
qed

lemma filterData_filter:
  "filterData data s e = slice_of (map toDataPoint (filter (keeps s e) data))"
  by (simp add: filterData_def filterData_loop_filter slice_of_def)

lemma keeps_zero: "keeps zeroTime zeroTime item = (timeParse (item_Date item) \<noteq> None)"
  by (simp add: keeps_def zeroTime_def IsZero_def split: option.splits)

lemma not_After_iff: "(\<not> After t u) = (Equal u t \<or> After u t)"
proof (cases "year t = year u")
  case False
  then show ?thesis by (auto simp: After_def Equal_def)
next
  case y: True
  show ?thesis
  proof (cases "month t = month u")
    case False
    then show ?thesis using y by (auto simp: After_def Equal_def)
  next
    case m: True
    show ?thesis
    proof (cases "day t = day u")
      case False
      then show ?thesis using y m by (auto simp: After_def Equal_def)
    next
      case True
      then show ?thesis using y m by (auto simp: After_def Equal_def)
    qed
  qed
qed

lemma keeps_range:
  assumes "\<not> (IsZero start \<and> IsZero end')"
  shows "keeps start end' item =
           (case timeParse (item_Date item) of
              None \<Rightarrow> False
            | Some date \<Rightarrow> \<not> After start date \<and> \<not> After date end')"
proof (cases "timeParse (item_Date item)")
  case None
  then show ?thesis by (simp add: keeps_def)
next
  case (Some date)
  have "keeps start end' item =
          ((Equal date start \<or> After date start) \<and> (Equal date end' \<or> Before date end'))"
    using assms Some by (auto simp: keeps_def)
  also have "\<dots> = (\<not> After start date \<and> \<not> After date end')"
  proof -
    have "Equal end' date = Equal date end'"
      by (auto simp: Equal_def)
    then show ?thesis
      by (simp only: not_After_iff [of start date] not_After_iff [of date end'] Before_def)
  qed
  finally show ?thesis
    using Some by simp
qed

lemma Meta_zero_iff:
  "(m = zeroMeta) =
     (FundHouse m = [] \<and> SchemeType m = [] \<and> SchemeCategory m = [] \<and> SchemeCode m = 0 \<and>
      SchemeName m = [])"
  by (cases m) (simp add: zeroMeta_def)

subsection \<open>Formatting a parsed date gives back the text that was parsed\<close>

lemma isDigit_digitChar: "isDigit c \<Longrightarrow> digitChar (digitVal c) = c"
  by (simp add: isDigit_def digitChar_def digitVal_def)

lemma digitVal_less: "isDigit c \<Longrightarrow> digitVal c < 10"
  by (auto simp: isDigit_def digitVal_def)

lemma digitsValue_snoc:
  "digitsValue n (cs @ [c]) =
     (case digitsValue n cs of
        None \<Rightarrow> None
      | Some u \<Rightarrow> if isDigit c then Some (u * 10 + int (digitVal c)) else None)"
  by (induction cs arbitrary: n) auto

lemma digitsValue_nonneg: "digitsValue n cs = Some v \<Longrightarrow> 0 \<le> n \<Longrightarrow> 0 \<le> v"
  by (induction cs arbitrary: n) (auto split: if_splits)

lemma decimal_small: "n < 10 \<Longrightarrow> decimal n = [digitChar n]"
  by (simp add: decimal.simps)

lemma decimal_step: "0 < u \<Longrightarrow> d < 10 \<Longrightarrow> decimal (u * 10 + d) = decimal u @ [digitChar d]"
  by (subst decimal.simps) simp

lemma padded_digits:
  "cs \<noteq> [] \<Longrightarrow> digitsValue 0 cs = Some v \<Longrightarrow>
     replicate (length cs - length (decimal (nat v))) (CHR ''0'') @ decimal (nat v) = cs"
proof (induction cs arbitrary: v rule: rev_induct)
  case Nil
  then show ?case by simp
next
  case (snoc c ds)
  from snoc.prems(2) obtain u where u: "digitsValue 0 ds = Some u" and c: "isDigit c"
    and v: "v = u * 10 + int (digitVal c)"
    by (auto simp: digitsValue_snoc split: option.splits if_splits)
  have u0: "0 \<le> u"
    using u digitsValue_nonneg by blast
  have dc: "digitChar (digitVal c) = c" "digitVal c < 10"
    using c by (simp_all add: isDigit_digitChar digitVal_less)
  have nv: "nat v = nat u * 10 + digitVal c"
    using u0 v by (simp add: nat_add_distrib nat_mult_distrib)
  show ?case
  proof (cases "ds = []")
    case True
    then have "u = 0" using u by simp
    then show ?thesis
      using True nv dc by (simp add: decimal_small)
  next
    case False
    then have ih: "replicate (length ds - length (decimal (nat u))) (CHR ''0'') @ decimal (nat u) = ds"
      using snoc.IH u by blast
    show ?thesis
    proof (cases "nat u = 0")
      case True
      then have z: "decimal (nat u) = [CHR ''0'']"
        by (simp add: decimal_small digitChar_table)
      obtain k where k: "length ds = Suc k"
        using \<open>ds \<noteq> []\<close> by (cases ds) auto
      have "replicate k (CHR ''0'') @ [CHR ''0''] = ds"
        using ih by (simp add: z k)
      then have r: "replicate (length ds) (CHR ''0'') = ds"
        by (simp add: k replicate_append_same)
      have "nat v = digitVal c"
        using nv True by simp
      then have "decimal (nat v) = [c]"
        using dc by (simp add: decimal_small)
      then show ?thesis
        using r by simp
    next
      case False
      then have "decimal (nat v) = decimal (nat u) @ [c]"
        using nv dc by (simp add: decimal_step)
      then show ?thesis
        using ih by simp
    qed
  qed
qed

lemma appendInt_digits:
  assumes "cs \<noteq> []" and "digitsValue 0 cs = Some v"
  shows "appendInt v (length cs) = cs"
proof -
  have "0 \<le> v"
    using assms(2) digitsValue_nonneg by blast
  then show ?thesis
    using padded_digits [OF assms] by (simp add: appendInt_def)
qed

lemma getnum_appendInt:
  assumes "getnum s = Some (n, rest)"
  shows "s = appendInt (int n) 2 @ rest"
proof -
  from assms obtain a b where s: "s = a # b # rest" and d: "isDigit a" "isDigit b"
    and n: "n = digitVal a * 10 + digitVal b"
    by (auto simp: getnum_def split: list.splits if_splits)
  have "digitsValue 0 [a, b] = Some (int n)"
    using d n by simp
  then have "appendInt (int n) (length [a, b]) = [a, b]"
    by (intro appendInt_digits) simp_all
  moreover have "length [a, b] = 2"
    by simp
  ultimately have "appendInt (int n) 2 = [a, b]"
    by (simp only:)
  then show ?thesis
    using s by simp
qed

lemma skipDash_Some: "skipDash s = Some rest \<Longrightarrow> s = ''-'' @ rest"
  by (auto simp: skipDash_def split: list.splits if_splits)

lemma getyear_appendInt:
  assumes "getyear s = Some (y, [])"
  shows "s = appendInt y 4"
proof -
  from assms have l: "4 \<le> length s" and v: "digitsValue 0 (take 4 s) = Some y"
    and r: "drop 4 s = []"
    by (auto simp: getyear_def split: if_splits option.splits)
  from l r have len: "length s = 4"
    by simp
  then have "take 4 s = s"
    by simp
  with v have "digitsValue 0 s = Some y"
    by simp
  moreover have "s \<noteq> []"
    using len by auto
  ultimately have "appendInt y (length s) = s"
    by (intro appendInt_digits)
  then have "appendInt y 4 = s"
    by (simp only: len)
  then show ?thesis
    by simp
qed

lemma timeParse_Some:
  assumes "timeParse s = Some t"
  obtains d m y s1 s2 s3 s4 where "getnum s = Some (d, s1)" "skipDash s1 = Some s2"
    "getnum s2 = Some (m, s3)" "skipDash s3 = Some s4" "getyear s4 = Some (y, [])"
    "t = \<lparr>year = y, month = int m, day = int d, nanos = 0\<rparr>"
    "1 \<le> m" "m \<le> 12" "1 \<le> d" "d \<le> daysIn m y"
  using assms unfolding timeParse_def
  by (auto split: option.splits if_splits prod.splits)

lemma timeFormat_timeParse:
  assumes "timeParse s = Some t"
  shows "timeFormat t = s"
proof -
  from assms obtain d m y s1 s2 s3 s4 where p: "getnum s = Some (d, s1)" "skipDash s1 = Some s2"
    "getnum s2 = Some (m, s3)" "skipDash s3 = Some s4" "getyear s4 = Some (y, [])"
    and t: "t = \<lparr>year = y, month = int m, day = int d, nanos = 0\<rparr>"
    by (rule timeParse_Some)
  have "s = appendInt (int d) 2 @ ''-'' @ appendInt (int m) 2 @ ''-'' @ appendInt y 4"
    using getnum_appendInt [OF p(1)] skipDash_Some [OF p(2)] getnum_appendInt [OF p(3)]
      skipDash_Some [OF p(4)] getyear_appendInt [OF p(5)]
    by simp
  then show ?thesis
    by (simp add: timeFormat_def t)
qed

subsection \<open>The success path with a date range\<close>

text \<open>
  With a valid identifier, two dates that parse, an end that is not in the future and a
  start that is not after the end, a fetch that succeeds and metadata that is not empty,
  the handler answers 200. The data are the upstream points that pass the test of the
  loop, in upstream order. The period is the two dates as they were given, and it is
  present only when neither date is the zero time.
\<close>

lemma Handler_with_dates:
  assumes "Query_Get r ''mutualFundID'' \<noteq> []"
    and "isValidInteger (Query_Get r ''mutualFundID'')"
    and "timeParse (Query_Get r ''start'') = Some start"
    and "timeParse (Query_Get r ''end'') = Some end'"
    and "\<not> After end' now"
    and "\<not> After start end'"
    and "world (baseURL @ Query_Get r ''mutualFundID'') = Decoded fund"
    and "fund_Meta fund \<noteq> zeroMeta"
  shows "Handler world now r =
           (\<lparr>status = 200, headers = [(''Content-Type'', ''application/json'')],
             body = JSONBody (JObject
               ([(''meta'', json_Meta (fund_Meta fund))] @
                (if IsZero start \<or> IsZero end' then []
                 else [(''period'', JString (Query_Get r ''start'' @ '' to '' @ Query_Get r ''end''))]) @
                [(''data'', json_Data (slice_of (map toDataPoint
                    (filter (keeps start end') (fund_Data fund)))))]))\<rparr>,
            [baseURL @ Query_Get r ''mutualFundID''])"
proof -
  have ne: "Query_Get r ''start'' \<noteq> []" "Query_Get r ''end'' \<noteq> []"
    using assms(3,4) timeParse_Nil by auto
  have d: "validateAndParseDates now (Query_Get r ''start'') (Query_Get r ''end'') =
             Inr (start, end')"
    using ne assms(3-6) by (simp add: validateAndParseDates_def parseDates_def)
  have f: "fetchFundData world (Query_Get r ''mutualFundID'') =
             (Inr fund, [baseURL @ Query_Get r ''mutualFundID''])"
    using assms(7) by (simp add: fetchFundData_def)
  have fmt: "timeFormat start = Query_Get r ''start''" "timeFormat end' = Query_Get r ''end''"
    using assms(3,4) by (simp_all add: timeFormat_timeParse)
  have c: "json_Response (createSuccessResponse (fund_Meta fund) data start end') =
             JObject
               ([(''meta'', json_Meta (fund_Meta fund))] @
                (if IsZero start \<or> IsZero end' then []
                 else [(''period'', JString (Query_Get r ''start'' @ '' to '' @ Query_Get r ''end''))]) @
                [(''data'', json_Data data)])" for data
    by (simp add: createSuccessResponse_def json_Response_def fmt)
  show ?thesis
    using assms(1,2,8) d f
    by (simp add: Handler_def json_Marshal_def c filterData_filter StatusOK_def)
qed

text \<open>
  The example of the specification: with \<open>start=01-01-2023\<close> and \<open>end=31-01-2023\<close>, of
  the upstream points dated \<open>15-02-2023\<close>, \<open>2023-01-20\<close> and \<open>15-01-2023\<close> the response
  holds only the last, and the period is \<open>01-01-2023 to 31-01-2023\<close>.
\<close>

lemma Handler_example_range:
  "Handler example_world example_now
     (example_request [(''mutualFundID'', ''100027''), (''start'', ''01-01-2023''), (''end'', ''31-01-2023'')]) =
     (\<lparr>status = 200, headers = [(''Content-Type'', ''application/json'')],
       body = JSONBody (JObject
         [(''meta'', json_Meta example_meta),
          (''period'', JString ''01-01-2023 to 31-01-2023''),
          (''data'', JArray
             [JObject [(''date'', JString ''15-01-2023''), (''nav'', JString ''10.50000'')]])])\<rparr>,
      [''https://api.mfapi.in/mf/100027''])"
  by (simp add: Handler_def query_defs isValidInteger_examples validateAndParseDates_def
      parseDates_def world_defs filter_defs timeParse_examples time_defs json_defs status_defs
      format_defs)

subsection \<open>The success path without dates\<close>

text \<open>
  With a valid identifier and no dates, a fetch that succeeds and metadata that is not
  empty, the handler answers 200 with the members \<open>meta\<close> and \<open>data\<close>; the loop of
  \<open>filterData\<close> has kept the upstream points whose date parses.
\<close>

lemma Handler_without_dates:
  assumes "Query_Get r ''mutualFundID'' \<noteq> []"
    and "isValidInteger (Query_Get r ''mutualFundID'')"
    and "Query_Get r ''start'' = []"
    and "Query_Get r ''end'' = []"
    and "world (baseURL @ Query_Get r ''mutualFundID'') = Decoded fund"
    and "fund_Meta fund \<noteq> zeroMeta"
  shows "Handler world now r =
           (\<lparr>status = 200, headers = [(''Content-Type'', ''application/json'')],
             body = JSONBody (JObject
               [(''meta'', json_Meta (fund_Meta fund)),
                (''data'', json_Data (slice_of (map toDataPoint
                    (filter (\<lambda>item. timeParse (item_Date item) \<noteq> None) (fund_Data fund)))))])\<rparr>,
            [baseURL @ Query_Get r ''mutualFundID''])"
proof -
  have d: "validateAndParseDates now (Query_Get r ''start'') (Query_Get r ''end'') =
             Inr (zeroTime, zeroTime)"
    using assms(3,4) by (simp add: validateAndParseDates_def)
  have f: "fetchFundData world (Query_Get r ''mutualFundID'') =
             (Inr fund, [baseURL @ Query_Get r ''mutualFundID''])"
    using assms(5) by (simp add: fetchFundData_def)
  have k: "filterData (fund_Data fund) zeroTime zeroTime =
             slice_of (map toDataPoint
               (filter (\<lambda>item. timeParse (item_Date item) \<noteq> None) (fund_Data fund)))"
  proof -
    have "keeps zeroTime zeroTime = (\<lambda>item. timeParse (item_Date item) \<noteq> None)"
      by (rule ext) (rule keeps_zero)
    then show ?thesis
      by (simp only: filterData_filter)
  qed
  have c: "createSuccessResponse (fund_Meta fund) data zeroTime zeroTime =
             \<lparr>resp_Meta = fund_Meta fund, Period = [], resp_Data = data\<rparr>" for data
    by (simp add: createSuccessResponse_def IsZero_def zeroTime_def)
  show ?thesis
    using assms(1,2,6) d f
    by (simp add: Handler_def k c json_Marshal_def json_Response_def StatusOK_def)
qed

section \<open>Properties of the data endpoint\<close>

text \<open>
  C1 (evaluation at a failing input). The request carries a valid \<open>mutualFundID\<close> and
  neither \<open>start\<close> nor \<open>end\<close>, and the fetch succeeds with metadata that is not empty.
  The upstream series of \<open>example_fund\<close> has three points; the handler answers 200 and
  the response data hold only two of them: the point dated \<open>2023-01-20\<close>, whose date is
  not in the format dd-mm-yyyy, is missing, so the data are not the full upstream series.
\<close>

theorem Handler_without_dates_drops_malformed_point:
  "isValidInteger ''100027'' \<and>
   Query_Get (example_request [(''mutualFundID'', ''100027'')]) ''start'' = [] \<and>
   Query_Get (example_request [(''mutualFundID'', ''100027'')]) ''end'' = [] \<and>
   example_world (baseURL @ ''100027'') = Decoded example_fund \<and>
   fund_Meta example_fund \<noteq> zeroMeta \<and>
   status (fst (Handler example_world example_now (example_request [(''mutualFundID'', ''100027'')]))) = 200 \<and>
   body_member (fst (Handler example_world example_now (example_request [(''mutualFundID'', ''100027'')])))
     ''data'' =
     Some (JArray
       [JObject [(''date'', JString ''15-02-2023''), (''nav'', JString ''11.50000'')],
        JObject [(''date'', JString ''15-01-2023''), (''nav'', JString ''10.50000'')]]) \<and>
   map json_DataPoint (map toDataPoint (fund_Data example_fund)) =
       [JObject [(''date'', JString ''15-02-2023''), (''nav'', JString ''11.50000'')],
        JObject [(''date'', JString ''2023-01-20''), (''nav'', JString ''11.00000'')],
        JObject [(''date'', JString ''15-01-2023''), (''nav'', JString ''10.50000'')]] \<and>
   body_member (fst (Handler example_world example_now (example_request [(''mutualFundID'', ''100027'')])))
     ''data'' \<noteq>
     Some (JArray (map json_DataPoint (map toDataPoint (fund_Data example_fund))))"
  by (simp add: Handler_def query_defs isValidInteger_examples validateAndParseDates_def
      world_defs filter_defs timeParse_examples time_defs json_defs status_defs toDataPoint_def)

text \<open>
  C2 (evaluation at a failing input). With \<open>start\<close> and \<open>end\<close> both \<open>01-01-0001\<close>, which
  parse to the zero time and pass validation, the response data hold the points dated
  \<open>15-02-2023\<close> and \<open>15-01-2023\<close>, although neither date lies between start and end.
\<close>

theorem Handler_zero_range_keeps_points_outside:
  "isValidInteger ''100027'' \<and>
   validateAndParseDates example_now ''01-01-0001'' ''01-01-0001'' = Inr (zeroTime, zeroTime) \<and>
   timeParse ''15-02-2023'' = Some \<lparr>year = 2023, month = 2, day = 15, nanos = 0\<rparr> \<and>
   After \<lparr>year = 2023, month = 2, day = 15, nanos = 0\<rparr> zeroTime \<and>
   Handler example_world example_now
     (example_request [(''mutualFundID'', ''100027''), (''start'', ''01-01-0001''), (''end'', ''01-01-0001'')]) =
     (\<lparr>status = 200, headers = [(''Content-Type'', ''application/json'')],
       body = JSONBody (JObject
         [(''meta'', json_Meta example_meta),
          (''data'', JArray
             [JObject [(''date'', JString ''15-02-2023''), (''nav'', JString ''11.50000'')],
              JObject [(''date'', JString ''15-01-2023''), (''nav'', JString ''10.50000'')]])])\<rparr>,
      [''https://api.mfapi.in/mf/100027''])"
  by (simp add: Handler_def query_defs isValidInteger_examples validateAndParseDates_def
      parseDates_def world_defs filter_defs timeParse_examples time_defs json_defs status_defs)

text \<open>
  C3 (as amended). For a request with a non-empty \<open>mutualFundID\<close> that is an integer and
  with \<open>start\<close> and \<open>end\<close> both non-empty: when \<open>start\<close> does not parse the handler answers
  400 with the message \<open>invalid start date format. use dd-mm-yyyy\<close>, and when \<open>start\<close>
  parses and \<open>end\<close> does not, 400 with \<open>invalid end date format. use dd-mm-yyyy\<close>; no
  outbound request is made.
\<close>

theorem Handler_invalid_date_format:
  assumes "Query_Get r ''mutualFundID'' \<noteq> []"
    and "isValidInteger (Query_Get r ''mutualFundID'')"
    and "Query_Get r ''start'' \<noteq> []"
    and "Query_Get r ''end'' \<noteq> []"
  shows "(timeParse (Query_Get r ''start'') = None \<longrightarrow>
            Handler world now r =
              (\<lparr>status = 400, headers = [(''Content-Type'', ''application/json'')],
                body = JSONBody (JObject [(''error'', JString ''invalid start date format. use dd-mm-yyyy'')])\<rparr>,
               [])) \<and>
         (timeParse (Query_Get r ''start'') \<noteq> None \<and> timeParse (Query_Get r ''end'') = None \<longrightarrow>
            Handler world now r =
              (\<lparr>status = 400, headers = [(''Content-Type'', ''application/json'')],
                body = JSONBody (JObject [(''error'', JString ''invalid end date format. use dd-mm-yyyy'')])\<rparr>,
               []))"
  using assms
  by (auto simp: Handler_def validateAndParseDates_def parseDates_def createErrorResponse_def
      StatusBadRequest_def)

theorem Handler_invalid_date_format_witness:
  "Query_Get (example_request [(''mutualFundID'', ''100027''), (''start'', ''31-02-2023''), (''end'', ''x'')])
     ''mutualFundID'' = ''100027'' \<and>
   isValidInteger ''100027'' \<and>
   timeParse ''31-02-2023'' = None \<and>
   Handler example_world example_now
     (example_request [(''mutualFundID'', ''100027''), (''start'', ''31-02-2023''), (''end'', ''x'')]) =
     (\<lparr>status = 400, headers = [(''Content-Type'', ''application/json'')],
       body = JSONBody (JObject [(''error'', JString ''invalid start date format. use dd-mm-yyyy'')])\<rparr>,
      []) \<and>
   timeParse ''01-01-2023'' \<noteq> None \<and>
   timeParse ''2023-01-20'' = None \<and>
   Handler example_world example_now
     (example_request [(''mutualFundID'', ''100027''), (''start'', ''01-01-2023''), (''end'', ''2023-01-20'')]) =
     (\<lparr>status = 400, headers = [(''Content-Type'', ''application/json'')],
       body = JSONBody (JObject [(''error'', JString ''invalid end date format. use dd-mm-yyyy'')])\<rparr>,
      [])"
proof -
  let ?r1 = "example_request [(''mutualFundID'', ''100027''), (''start'', ''31-02-2023''), (''end'', ''x'')]"
  let ?r2 = "example_request [(''mutualFundID'', ''100027''), (''start'', ''01-01-2023''), (''end'', ''2023-01-20'')]"
  have q1: "Query_Get ?r1 ''mutualFundID'' = ''100027''" "Query_Get ?r1 ''start'' = ''31-02-2023''"
    "Query_Get ?r1 ''end'' = ''x''"
    by (simp_all add: query_defs)
  have q2: "Query_Get ?r2 ''mutualFundID'' = ''100027''" "Query_Get ?r2 ''start'' = ''01-01-2023''"
    "Query_Get ?r2 ''end'' = ''2023-01-20''"
    by (simp_all add: query_defs)
  have v: "isValidInteger ''100027''"
    by (rule isValidInteger_examples)
  have p: "timeParse ''31-02-2023'' = None" "timeParse ''01-01-2023'' \<noteq> None"
    "timeParse ''2023-01-20'' = None"
    by (simp_all add: timeParse_examples)
  have t1: "(timeParse (Query_Get ?r1 ''start'') = None \<longrightarrow>
            Handler example_world example_now ?r1 =
              (\<lparr>status = 400, headers = [(''Content-Type'', ''application/json'')],
                body = JSONBody (JObject [(''error'', JString ''invalid start date format. use dd-mm-yyyy'')])\<rparr>,
               []))"
    using Handler_invalid_date_format [of ?r1 example_world example_now] q1 v by simp
  have t2: "(timeParse (Query_Get ?r2 ''start'') \<noteq> None \<and> timeParse (Query_Get ?r2 ''end'') = None \<longrightarrow>
            Handler example_world example_now ?r2 =
              (\<lparr>status = 400, headers = [(''Content-Type'', ''application/json'')],
                body = JSONBody (JObject [(''error'', JString ''invalid end date format. use dd-mm-yyyy'')])\<rparr>,
               []))"
    using Handler_invalid_date_format [of ?r2 example_world example_now] q2 v by simp
  show ?thesis
    using t1 t2 q1 q2 v p by simp
qed

text \<open>
  Against C3 as stated: the message for a start date that does not parse is not
  \<open>invalid start/end date format. use dd-mm-yyyy\<close>.
\<close>

theorem Handler_invalid_date_message_counterexample:
  "Query_Get (example_request [(''mutualFundID'', ''100027''), (''start'', ''2023-01-01''), (''end'', ''31-01-2023'')])
     ''mutualFundID'' = ''100027'' \<and>
   isValidInteger ''100027'' \<and>
   timeParse ''2023-01-01'' = None \<and>
   Handler example_world example_now
     (example_request [(''mutualFundID'', ''100027''), (''start'', ''2023-01-01''), (''end'', ''31-01-2023'')]) =
     (\<lparr>status = 400, headers = [(''Content-Type'', ''application/json'')],
       body = JSONBody (JObject [(''error'', JString ''invalid start date format. use dd-mm-yyyy'')])\<rparr>,
      []) \<and>
   ''invalid start date format. use dd-mm-yyyy'' \<noteq> ''invalid start/end date format. use dd-mm-yyyy''"
  by (simp add: Handler_def query_defs isValidInteger_examples timeParse_examples
      validateAndParseDates_def parseDates_def createErrorResponse_def status_defs)

text \<open>
  C4 (evaluation at a failing input). With \<open>start\<close> equal to \<open>01-01-0001\<close> and \<open>end\<close> equal
  to \<open>31-01-2023\<close>, both supplied and validated, the handler answers 200 and the JSON
  object has no \<open>period\<close> member.
\<close>

theorem Handler_zero_start_omits_period:
  "isValidInteger ''100027'' \<and>
   validateAndParseDates example_now ''01-01-0001'' ''31-01-2023'' =
     Inr (zeroTime, \<lparr>year = 2023, month = 1, day = 31, nanos = 0\<rparr>) \<and>
   Handler example_world example_now
     (example_request [(''mutualFundID'', ''100027''), (''start'', ''01-01-0001''), (''end'', ''31-01-2023'')]) =
     (\<lparr>status = 200, headers = [(''Content-Type'', ''application/json'')],
       body = JSONBody (JObject
         [(''meta'', json_Meta example_meta),
          (''data'', JArray
             [JObject [(''date'', JString ''15-01-2023''), (''nav'', JString ''10.50000'')]])])\<rparr>,
      [''https://api.mfapi.in/mf/100027'']) \<and>
   body_member (fst (Handler example_world example_now
     (example_request [(''mutualFundID'', ''100027''), (''start'', ''01-01-0001''), (''end'', ''31-01-2023'')])))
     ''period'' = None"
  by (simp add: Handler_def query_defs isValidInteger_examples validateAndParseDates_def
      parseDates_def world_defs filter_defs timeParse_examples time_defs json_defs status_defs)

text \<open>
  C5. For a request that passes parameter validation and whose fetch succeeds: when all
  four strings of the metadata are empty and the scheme code is 0, the handler answers
  400 with the message \<open>Invalid mutualFundID\<close>; otherwise it answers 200 with the
  response assembled by \<open>createSuccessResponse\<close> from the metadata and the filtered data.
\<close>

theorem Handler_zero_metadata_check:
  assumes "Query_Get r ''mutualFundID'' \<noteq> []"
    and "isValidInteger (Query_Get r ''mutualFundID'')"
    and "validateAndParseDates now (Query_Get r ''start'') (Query_Get r ''end'') = Inr (start, end')"
    and "world (baseURL @ Query_Get r ''mutualFundID'') = Decoded fund"
  shows "(FundHouse (fund_Meta fund) = [] \<and> SchemeType (fund_Meta fund) = [] \<and>
          SchemeCategory (fund_Meta fund) = [] \<and> SchemeCode (fund_Meta fund) = 0 \<and>
          SchemeName (fund_Meta fund) = [] \<longrightarrow>
            Handler world now r =
              (\<lparr>status = 400, headers = [(''Content-Type'', ''application/json'')],
                body = JSONBody (JObject [(''error'', JString ''Invalid mutualFundID'')])\<rparr>,
               [baseURL @ Query_Get r ''mutualFundID''])) \<and>
         (\<not> (FundHouse (fund_Meta fund) = [] \<and> SchemeType (fund_Meta fund) = [] \<and>
             SchemeCategory (fund_Meta fund) = [] \<and> SchemeCode (fund_Meta fund) = 0 \<and>
             SchemeName (fund_Meta fund) = []) \<longrightarrow>
            Handler world now r =
              (\<lparr>status = 200, headers = [(''Content-Type'', ''application/json'')],
                body = JSONBody (json_Response
                  (createSuccessResponse (fund_Meta fund)
                     (filterData (fund_Data fund) start end') start end'))\<rparr>,
               [baseURL @ Query_Get r ''mutualFundID'']))"
proof -
  have f: "fetchFundData world (Query_Get r ''mutualFundID'') =
             (Inr fund, [baseURL @ Query_Get r ''mutualFundID''])"
    using assms(4) by (simp add: fetchFundData_def)
  have z: "(fund_Meta fund = zeroMeta) =
     (FundHouse (fund_Meta fund) = [] \<and> SchemeType (fund_Meta fund) = [] \<and>
      SchemeCategory (fund_Meta fund) = [] \<and> SchemeCode (fund_Meta fund) = 0 \<and>
      SchemeName (fund_Meta fund) = [])"
    by (rule Meta_zero_iff)
  show ?thesis
  proof (cases "fund_Meta fund = zeroMeta")
    case True
    then have "Handler world now r =
              (\<lparr>status = 400, headers = [(''Content-Type'', ''application/json'')],
                body = JSONBody (JObject [(''error'', JString ''Invalid mutualFundID'')])\<rparr>,
               [baseURL @ Query_Get r ''mutualFundID''])"
      using assms(1-3) f
      by (simp add: Handler_def createErrorResponse_def StatusBadRequest_def)
    then show ?thesis
      using True z by simp
  next
    case False
    then have "Handler world now r =
              (\<lparr>status = 200, headers = [(''Content-Type'', ''application/json'')],
                body = JSONBody (json_Response
                  (createSuccessResponse (fund_Meta fund)
                     (filterData (fund_Data fund) start end') start end'))\<rparr>,
               [baseURL @ Query_Get r ''mutualFundID''])"
      using assms(1-3) f
      by (simp add: Handler_def json_Marshal_def StatusOK_def)
    then show ?thesis
      using False z by simp
  qed
qed

theorem Handler_zero_metadata_check_witness:
  "isValidInteger ''100027'' \<and>
   validateAndParseDates example_now [] [] = Inr (zeroTime, zeroTime) \<and>
   example_unknown_world (baseURL @ ''100027'') = Decoded example_unknown_fund \<and>
   fund_Meta example_unknown_fund = zeroMeta \<and>
   Handler example_unknown_world example_now (example_request [(''mutualFundID'', ''100027'')]) =
     (\<lparr>status = 400, headers = [(''Content-Type'', ''application/json'')],
       body = JSONBody (JObject [(''error'', JString ''Invalid mutualFundID'')])\<rparr>,
      [''https://api.mfapi.in/mf/100027'']) \<and>
   example_world (baseURL @ ''100027'') = Decoded example_fund \<and>
   SchemeCode (fund_Meta example_fund) = 100027 \<and>
   Handler example_world example_now (example_request [(''mutualFundID'', ''100027'')]) =
     (\<lparr>status = 200, headers = [(''Content-Type'', ''application/json'')],
       body = JSONBody (JObject
         [(''meta'', json_Meta example_meta),
          (''data'', JArray
             [JObject [(''date'', JString ''15-02-2023''), (''nav'', JString ''11.50000'')],
              JObject [(''date'', JString ''15-01-2023''), (''nav'', JString ''10.50000'')]])])\<rparr>,
      [''https://api.mfapi.in/mf/100027''])"
proof -
  let ?r = "example_request [(''mutualFundID'', ''100027'')]"
  have q: "Query_Get ?r ''mutualFundID'' = ''100027''" "Query_Get ?r ''start'' = []"
    "Query_Get ?r ''end'' = []"
    by (simp_all add: query_defs)
  have v: "isValidInteger ''100027''"
    by (rule isValidInteger_examples)
  have d: "validateAndParseDates example_now [] [] = Inr (zeroTime, zeroTime)"
    by (simp add: validateAndParseDates_def)
  have w: "example_unknown_world (baseURL @ ''100027'') = Decoded example_unknown_fund"
    "example_world (baseURL @ ''100027'') = Decoded example_fund"
    by (simp_all add: example_unknown_world_def example_world_def)
  have m: "fund_Meta example_unknown_fund = zeroMeta" "SchemeCode (fund_Meta example_fund) = 100027"
    by (simp_all add: example_unknown_fund_def example_fund_def example_meta_def)
  have u: "baseURL @ ''100027'' = ''https://api.mfapi.in/mf/100027''"
    by (simp add: baseURL_def)
  have j: "json_Response (createSuccessResponse (fund_Meta example_fund)
             (filterData (fund_Data example_fund) zeroTime zeroTime) zeroTime zeroTime) =
           JObject
             [(''meta'', json_Meta example_meta),
              (''data'', JArray
                 [JObject [(''date'', JString ''15-02-2023''), (''nav'', JString ''11.50000'')],
                  JObject [(''date'', JString ''15-01-2023''), (''nav'', JString ''10.50000'')]])]"
    by (simp add: example_fund_def filter_defs timeParse_examples zeroTime_def IsZero_def
        json_Response_def json_Data_def json_DataPoint_def)
  have t1: "Handler example_unknown_world example_now ?r =
     (\<lparr>status = 400, headers = [(''Content-Type'', ''application/json'')],
       body = JSONBody (JObject [(''error'', JString ''Invalid mutualFundID'')])\<rparr>,
      [''https://api.mfapi.in/mf/100027''])"
    using Handler_zero_metadata_check [of ?r example_now zeroTime zeroTime example_unknown_world
        example_unknown_fund] q v d w(1) m(1) u
    by (simp add: zeroMeta_def)
  have t2: "Handler example_world example_now ?r =
     (\<lparr>status = 200, headers = [(''Content-Type'', ''application/json'')],
       body = JSONBody (JObject
         [(''meta'', json_Meta example_meta),
          (''data'', JArray
             [JObject [(''date'', JString ''15-02-2023''), (''nav'', JString ''11.50000'')],
              JObject [(''date'', JString ''15-01-2023''), (''nav'', JString ''10.50000'')]])])\<rparr>,
      [''https://api.mfapi.in/mf/100027''])"
    using Handler_zero_metadata_check [of ?r example_now zeroTime zeroTime example_world
        example_fund] q v d w(2) m(2) u j
    by simp
  show ?thesis
    using v d w m t1 t2 by simp
qed

text \<open>
  C6 (as amended). For a request with a non-empty \<open>mutualFundID\<close> that is an integer,
  whose \<open>start\<close> and \<open>end\<close> both parse: when the end is after the current time the handler
  answers 400 with \<open>end date cannot be in the future\<close> (also when the start is after the
  end); when the end is not after the current time and the start is after the end, 400
  with \<open>start date cannot be after end date\<close>.
\<close>

theorem Handler_date_order_checks:
  assumes "Query_Get r ''mutualFundID'' \<noteq> []"
    and "isValidInteger (Query_Get r ''mutualFundID'')"
    and "timeParse (Query_Get r ''start'') = Some start"
    and "timeParse (Query_Get r ''end'') = Some end'"
  shows "(After end' now \<longrightarrow>
            Handler world now r =
              (\<lparr>status = 400, headers = [(''Content-Type'', ''application/json'')],
                body = JSONBody (JObject [(''error'', JString ''end date cannot be in the future'')])\<rparr>,
               [])) \<and>
         (\<not> After end' now \<and> After start end' \<longrightarrow>
            Handler world now r =
              (\<lparr>status = 400, headers = [(''Content-Type'', ''application/json'')],
                body = JSONBody (JObject [(''error'', JString ''start date cannot be after end date'')])\<rparr>,
               []))"
proof -
  have "Query_Get r ''start'' \<noteq> []" "Query_Get r ''end'' \<noteq> []"
    using assms(3,4) timeParse_Nil by auto
  then show ?thesis
    using assms
    by (auto simp: Handler_def validateAndParseDates_def parseDates_def createErrorResponse_def
        StatusBadRequest_def)
qed

theorem Handler_date_order_checks_witness:
  "isValidInteger ''100027'' \<and>
   timeParse ''02-01-2030'' = Some \<lparr>year = 2030, month = 1, day = 2, nanos = 0\<rparr> \<and>
   timeParse ''01-01-2030'' = Some \<lparr>year = 2030, month = 1, day = 1, nanos = 0\<rparr> \<and>
   After \<lparr>year = 2030, month = 1, day = 1, nanos = 0\<rparr> example_now \<and>
   After \<lparr>year = 2030, month = 1, day = 2, nanos = 0\<rparr> \<lparr>year = 2030, month = 1, day = 1, nanos = 0\<rparr> \<and>
   Handler example_world example_now
     (example_request [(''mutualFundID'', ''100027''), (''start'', ''02-01-2030''), (''end'', ''01-01-2030'')]) =
     (\<lparr>status = 400, headers = [(''Content-Type'', ''application/json'')],
       body = JSONBody (JObject [(''error'', JString ''end date cannot be in the future'')])\<rparr>,
      []) \<and>
   timeParse ''02-01-2020'' = Some \<lparr>year = 2020, month = 1, day = 2, nanos = 0\<rparr> \<and>
   timeParse ''01-01-2020'' = Some \<lparr>year = 2020, month = 1, day = 1, nanos = 0\<rparr> \<and>
   \<not> After \<lparr>year = 2020, month = 1, day = 1, nanos = 0\<rparr> example_now \<and>
   After \<lparr>year = 2020, month = 1, day = 2, nanos = 0\<rparr> \<lparr>year = 2020, month = 1, day = 1, nanos = 0\<rparr> \<and>
   Handler example_world example_now
     (example_request [(''mutualFundID'', ''100027''), (''start'', ''02-01-2020''), (''end'', ''01-01-2020'')]) =
     (\<lparr>status = 400, headers = [(''Content-Type'', ''application/json'')],
       body = JSONBody (JObject [(''error'', JString ''start date cannot be after end date'')])\<rparr>,
      [])"
proof -
  let ?r1 = "example_request [(''mutualFundID'', ''100027''), (''start'', ''02-01-2030''), (''end'', ''01-01-2030'')]"
  let ?r2 = "example_request [(''mutualFundID'', ''100027''), (''start'', ''02-01-2020''), (''end'', ''01-01-2020'')]"
  have v: "isValidInteger ''100027''"
    by (rule isValidInteger_examples)
  have p: "timeParse ''02-01-2030'' = Some \<lparr>year = 2030, month = 1, day = 2, nanos = 0\<rparr>"
    "timeParse ''01-01-2030'' = Some \<lparr>year = 2030, month = 1, day = 1, nanos = 0\<rparr>"
    "timeParse ''02-01-2020'' = Some \<lparr>year = 2020, month = 1, day = 2, nanos = 0\<rparr>"
    "timeParse ''01-01-2020'' = Some \<lparr>year = 2020, month = 1, day = 1, nanos = 0\<rparr>"
    by (simp_all add: parse_defs)
  have c: "After \<lparr>year = 2030, month = 1, day = 1, nanos = 0\<rparr> example_now"
    "After \<lparr>year = 2030, month = 1, day = 2, nanos = 0\<rparr> \<lparr>year = 2030, month = 1, day = 1, nanos = 0\<rparr>"
    "\<not> After \<lparr>year = 2020, month = 1, day = 1, nanos = 0\<rparr> example_now"
    "After \<lparr>year = 2020, month = 1, day = 2, nanos = 0\<rparr> \<lparr>year = 2020, month = 1, day = 1, nanos = 0\<rparr>"
    by (simp_all add: After_def example_now_def)
  have q1: "Query_Get ?r1 ''mutualFundID'' = ''100027''" "Query_Get ?r1 ''start'' = ''02-01-2030''"
    "Query_Get ?r1 ''end'' = ''01-01-2030''"
    by (simp_all add: query_defs)
  have q2: "Query_Get ?r2 ''mutualFundID'' = ''100027''" "Query_Get ?r2 ''start'' = ''02-01-2020''"
    "Query_Get ?r2 ''end'' = ''01-01-2020''"
    by (simp_all add: query_defs)
  have t1: "Handler example_world example_now ?r1 =
     (\<lparr>status = 400, headers = [(''Content-Type'', ''application/json'')],
       body = JSONBody (JObject [(''error'', JString ''end date cannot be in the future'')])\<rparr>,
      [])"
    using Handler_date_order_checks [of ?r1 _ _ example_now example_world] q1 v p(1,2) c(1) by simp
  have t2: "Handler example_world example_now ?r2 =
     (\<lparr>status = 400, headers = [(''Content-Type'', ''application/json'')],
       body = JSONBody (JObject [(''error'', JString ''start date cannot be after end date'')])\<rparr>,
      [])"
    using Handler_date_order_checks [of ?r2 _ _ example_now example_world] q2 v p(3,4) c(3,4) by simp
  show ?thesis
    using v p c t1 t2 by simp
qed

text \<open>
  Against C6 as stated: a request without \<open>mutualFundID\<close> whose start is after its end is
  answered with the message about the missing identifier.
\<close>

theorem Handler_date_order_without_id_counterexample:
  "timeParse ''02-01-2020'' = Some \<lparr>year = 2020, month = 1, day = 2, nanos = 0\<rparr> \<and>
   timeParse ''01-01-2020'' = Some \<lparr>year = 2020, month = 1, day = 1, nanos = 0\<rparr> \<and>
   \<not> After \<lparr>year = 2020, month = 1, day = 1, nanos = 0\<rparr> example_now \<and>
   After \<lparr>year = 2020, month = 1, day = 2, nanos = 0\<rparr> \<lparr>year = 2020, month = 1, day = 1, nanos = 0\<rparr> \<and>
   Handler example_world example_now
     (example_request [(''start'', ''02-01-2020''), (''end'', ''01-01-2020'')]) =
     (\<lparr>status = 400, headers = [(''Content-Type'', ''application/json'')],
       body = JSONBody (JObject [(''error'', JString ''mutualFundID query parameter is required'')])\<rparr>,
      []) \<and>
   ''mutualFundID query parameter is required'' \<noteq> ''start date cannot be after end date''"
  by (simp add: Handler_def query_defs timeParse_examples After_def example_now_def
      createErrorResponse_def status_defs)

text \<open>
  C7 (as amended). When the parameter \<open>mutualFundID\<close> is absent, or its first value is
  empty, the handler answers 400 with \<open>mutualFundID query parameter is required\<close>; when
  its first value is non-empty and not an integer, 400 with \<open>mutualFundID must be an
  integer\<close>. Both hold whatever the dates, the upstream service and the clock are, and
  no outbound request is made.
\<close>

theorem Handler_mutualFundID_checks:
  "((map_of (query r) ''mutualFundID'' = None \<or> map_of (query r) ''mutualFundID'' = Some []) \<longrightarrow>
      Handler world now r =
        (\<lparr>status = 400, headers = [(''Content-Type'', ''application/json'')],
          body = JSONBody (JObject [(''error'', JString ''mutualFundID query parameter is required'')])\<rparr>,
         [])) \<and>
   (\<forall>v. map_of (query r) ''mutualFundID'' = Some v \<and> v \<noteq> [] \<and> \<not> isValidInteger v \<longrightarrow>
      Handler world now r =
        (\<lparr>status = 400, headers = [(''Content-Type'', ''application/json'')],
          body = JSONBody (JObject [(''error'', JString ''mutualFundID must be an integer'')])\<rparr>,
         []))"
  by (auto simp: Handler_def Query_Get_def firstValue_def createErrorResponse_def
      StatusBadRequest_def)

theorem Handler_mutualFundID_checks_witness:
  "map_of (query (example_request [(''start'', ''01-01-2023'')])) ''mutualFundID'' = None \<and>
   Handler example_world example_now (example_request [(''start'', ''01-01-2023'')]) =
     (\<lparr>status = 400, headers = [(''Content-Type'', ''application/json'')],
       body = JSONBody (JObject [(''error'', JString ''mutualFundID query parameter is required'')])\<rparr>,
      []) \<and>
   map_of (query (example_request [(''mutualFundID'', ''12a''), (''end'', ''x'')])) ''mutualFundID''
     = Some ''12a'' \<and>
   \<not> isValidInteger ''12a'' \<and>
   Handler example_world example_now (example_request [(''mutualFundID'', ''12a''), (''end'', ''x'')]) =
     (\<lparr>status = 400, headers = [(''Content-Type'', ''application/json'')],
       body = JSONBody (JObject [(''error'', JString ''mutualFundID must be an integer'')])\<rparr>,
      [])"
proof -
  have a: "map_of (query (example_request [(''start'', ''01-01-2023'')])) ''mutualFundID'' = None"
    by (simp add: example_request_def)
  have b: "map_of (query (example_request [(''mutualFundID'', ''12a''), (''end'', ''x'')]))
             ''mutualFundID'' = Some ''12a''"
    by (simp add: example_request_def)
  have c: "\<not> isValidInteger ''12a''"
    by (rule isValidInteger_examples)
  show ?thesis
    using a b c
      Handler_mutualFundID_checks [of "example_request [(''start'', ''01-01-2023'')]"
        example_world example_now]
      Handler_mutualFundID_checks [of "example_request [(''mutualFundID'', ''12a''), (''end'', ''x'')]"
        example_world example_now]
    by simp
qed

text \<open>
  Against C7 as stated: the parameter is present with an empty value, which is not an
  integer, and the message is the one for a missing parameter.
\<close>

theorem Handler_empty_mutualFundID_counterexample:
  "map_of (query (example_request [(''mutualFundID'', [])])) ''mutualFundID'' = Some [] \<and>
   \<not> isValidInteger [] \<and>
   Handler example_world example_now (example_request [(''mutualFundID'', [])]) =
     (\<lparr>status = 400, headers = [(''Content-Type'', ''application/json'')],
       body = JSONBody (JObject [(''error'', JString ''mutualFundID query parameter is required'')])\<rparr>,
      []) \<and>
   body (fst (Handler example_world example_now (example_request [(''mutualFundID'', [])]))) \<noteq>
     JSONBody (JObject [(''error'', JString ''mutualFundID must be an integer'')])"
  by (simp add: Handler_def query_defs atoi_defs createErrorResponse_def status_defs)

section \<open>Properties of the cron endpoint\<close>

text \<open>
  C9. Whatever the HTTP method of the request: when the Authorization header differs from
  \<open>"Bearer "\<close> followed by the value of \<open>CRON_SECRET\<close>, \<open>Cron\<close> answers 401 with the text
  \<open>Unauthorized\<close>; when it is equal, \<open>Cron\<close> answers 200 with the JSON object
  \<open>{"data":"Hello, Cron!"}\<close>.
\<close>

theorem Cron_authorization:
  "(Header_Get r ''Authorization'' \<noteq> ''Bearer '' @ Getenv env ''CRON_SECRET'' \<longrightarrow>
      status (Cron env r) = 401 \<and> body (Cron env r) = PlainText ''Unauthorized'') \<and>
   (Header_Get r ''Authorization'' = ''Bearer '' @ Getenv env ''CRON_SECRET'' \<longrightarrow>
      status (Cron env r) = 200 \<and>
      body (Cron env r) = JSONBody (JObject [(''data'', JString ''Hello, Cron!'')])) \<and>
   Cron env (r\<lparr>http_method := m\<rparr>) = Cron env r"
  by (simp add: Cron_def Header_Get_def http_Error_def StatusOK_def StatusUnauthorized_def)

theorem Cron_authorization_witness:
  "Header_Get (example_cron_request ''POST'' ''Bearer wrong'') ''Authorization''
     \<noteq> ''Bearer '' @ Getenv example_env ''CRON_SECRET'' \<and>
   status (Cron example_env (example_cron_request ''POST'' ''Bearer wrong'')) = 401 \<and>
   body (Cron example_env (example_cron_request ''POST'' ''Bearer wrong'')) = PlainText ''Unauthorized'' \<and>
   Header_Get (example_cron_request ''GET'' ''Bearer s3cret'') ''Authorization''
     = ''Bearer '' @ Getenv example_env ''CRON_SECRET'' \<and>
   status (Cron example_env (example_cron_request ''GET'' ''Bearer s3cret'')) = 200 \<and>
   body (Cron example_env (example_cron_request ''GET'' ''Bearer s3cret'')) =
     JSONBody (JObject [(''data'', JString ''Hello, Cron!'')])"
proof -
  have a: "Header_Get (example_cron_request ''POST'' ''Bearer wrong'') ''Authorization''
     \<noteq> ''Bearer '' @ Getenv example_env ''CRON_SECRET''"
    by (simp add: Header_Get_def firstValue_def Getenv_def example_env_def example_cron_request_def)
  have b: "Header_Get (example_cron_request ''GET'' ''Bearer s3cret'') ''Authorization''
     = ''Bearer '' @ Getenv example_env ''CRON_SECRET''"
    by (simp add: Header_Get_def firstValue_def Getenv_def example_env_def example_cron_request_def)
  show ?thesis
    using a b
      Cron_authorization [of "example_cron_request ''POST'' ''Bearer wrong''" example_env]
      Cron_authorization [of "example_cron_request ''GET'' ''Bearer s3cret''" example_env]
    by simp
qed

text \<open>
  C10. When \<open>CRON_SECRET\<close> is unset or empty, a request whose Authorization header is
  exactly \<open>"Bearer "\<close> is authorized: \<open>Cron\<close> answers 200 with the success payload.
\<close>

theorem Cron_unset_secret_accepts_bare_prefix:
  assumes "env ''CRON_SECRET'' = None \<or> env ''CRON_SECRET'' = Some []"
    and "Header_Get r ''Authorization'' = ''Bearer ''"
  shows "Cron env r =
           \<lparr>status = 200, headers = [(''Content-Type'', ''application/json'')],
            body = JSONBody (JObject [(''data'', JString ''Hello, Cron!'')])\<rparr>"
  using assms by (auto simp: Cron_def Getenv_def StatusOK_def)

theorem Cron_unset_secret_accepts_bare_prefix_witness:
  "Map.empty ''CRON_SECRET'' = (None :: string option) \<and>
   Header_Get (example_cron_request ''GET'' ''Bearer '') ''Authorization'' = ''Bearer '' \<and>
   Cron Map.empty (example_cron_request ''GET'' ''Bearer '') =
     \<lparr>status = 200, headers = [(''Content-Type'', ''application/json'')],
      body = JSONBody (JObject [(''data'', JString ''Hello, Cron!'')])\<rparr>"
proof -
  have h: "Header_Get (example_cron_request ''GET'' ''Bearer '') ''Authorization'' = ''Bearer ''"
    by (simp add: Header_Get_def firstValue_def example_cron_request_def)
  have e: "Map.empty ''CRON_SECRET'' = (None :: string option) \<or>
           Map.empty ''CRON_SECRET'' = Some []"
    by simp
  show ?thesis
    using h Cron_unset_secret_accepts_bare_prefix [OF e h] by simp
qed

end
